theory Spec2Isabelle
  imports Main "HOL-Library.AList" "HOL-Library.Sublist"
begin

section \<open>JavaScript values used by the command layer (index.js)\<close>

text \<open>
  A thrown or rejected value is an error object: its constructor name and its
  \<open>message\<close>, the only property index.js ever reads from it.
\<close>

datatype error_name = GenericError | TypeError

datatype js_error = JsError (err_name: error_name) (message: string)

text \<open>
  A plain object literal \<open>{}\<close> is the ordered list of its own properties.
  A property read from an attribute that is absent is \<open>undefined\<close>, written
  \<open>None\<close>; used as a property name it is coerced to the string "undefined".
\<close>

type_synonym 'v js_object = "(string \<times> 'v) list"

definition to_property_key :: "string option \<Rightarrow> string" where
  "to_property_key k = (case k of None \<Rightarrow> ''undefined'' | Some s \<Rightarrow> s)"

text \<open>
  \<open>obj[k] = v\<close> on a plain object: an existing own property keeps its place and
  takes the new value, a new one is appended. The name \<open>__proto__\<close> is the
  accessor inherited from Object.prototype: assigning to it never creates an
  own property (a primitive value is dropped, an object becomes the prototype).
\<close>

definition js_assign :: "string \<Rightarrow> 'v \<Rightarrow> 'v js_object \<Rightarrow> 'v js_object" where
  "js_assign k v obj = (if k = ''__proto__'' then obj else AList.update k v obj)"

text \<open>Truthiness of a value that is a string or \<open>undefined\<close>.\<close>

definition truthy :: "string option \<Rightarrow> bool" where
  "truthy s = (case s of None \<Rightarrow> False | Some t \<Rightarrow> t \<noteq> [])"

text \<open>\<open>a || b\<close> on such a value.\<close>

definition or_else :: "string option \<Rightarrow> string \<Rightarrow> string" where
  "or_else a b = (case a of None \<Rightarrow> b | Some t \<Rightarrow> if t = [] then b else t)"

section \<open>Constants of index.js\<close>

definition SITE_CONFIG_NAME :: string where
  "SITE_CONFIG_NAME = ''site.json''"

definition USER_VARIABLES_PATH :: string where
  "USER_VARIABLES_PATH = ''_markbind/variables.md''"

section \<open>Data passed to the collaborators\<close>

text \<open>
  The \<open>config\<close> object handed to the fragment engine. The include action sets
  three properties; the render action sets only the first two, so the third is
  optional here.
\<close>

record config =
  rootPath :: string
  baseUrlMap :: "bool js_object"
  userDefinedVariablesMap :: "(string js_object) js_object option"

text \<open>
  One element of \<open>$.root().children()\<close>: what \<open>attr('id')\<close> and \<open>html()\<close>
  return for it.
\<close>

record element =
  attr_id :: "string option"
  html :: string

section \<open>The variable map (index.js lines 57 to 76)\<close>

text \<open>The body of the \<open>each\<close> callback, lines 68 to 70.\<close>

definition each_child :: "string js_object \<Rightarrow> element \<Rightarrow> string js_object" where
  "each_child userDefinedVariables el =
     js_assign (to_property_key (attr_id el)) (html el) userDefinedVariables"

text \<open>The loop over the top-level elements, starting from \<open>{}\<close> (line 57).\<close>

definition parse_children :: "element list \<Rightarrow> string js_object" where
  "parse_children els = foldl each_child [] els"

text \<open>Line 75: the placeholder is stored after the loop.\<close>

definition inject_baseUrl :: "string js_object \<Rightarrow> string js_object" where
  "inject_baseUrl userDefinedVariables =
     js_assign ''baseUrl'' ''{{baseUrl}}'' userDefinedVariables"

definition variables_of_children :: "element list \<Rightarrow> string js_object" where
  "variables_of_children els = inject_baseUrl (parse_children els)"

text \<open>The ids a list of elements declares, and the property name each element is stored under.\<close>

definition declared_ids :: "element list \<Rightarrow> string set" where
  "declared_ids els = set (List.map_filter attr_id els)"

definition key_of :: "element \<Rightarrow> string" where
  "key_of el = to_property_key (attr_id el)"

section \<open>Effects and computations\<close>

text \<open>
  The calls index.js makes on its promise-returning collaborators (the Site
  object and the fragment engine).
\<close>

datatype call =
    ReadSiteConfig
  | Generate
  | RebuildAffectedSourceFiles string
  | BuildAsset string
  | RemoveAsset string
  | IncludeFile string config
  | RenderFile string config

text \<open>
  An entry of the \<open>ignored\<close> array given to the watcher (lines 208 to 212): a
  path string, the regular expression of line 210, or one of the
  \<open>x => x.endsWith(s)\<close> functions.
\<close>

datatype matcher = PathString string | DotRegExp | EndsWith string

datatype js_port = PortString string | PortNumber nat

record serverConfig =
  sc_open :: bool
  sc_logLevel :: nat
  sc_root :: string
  sc_port :: js_port
  sc_mount :: "(string \<times> string) list"

text \<open>
  Everything a command does to the outside world, in the order it happens.
  A collaborator's promise leaves two entries: the call, and how it settled.
\<close>

datatype effect =
    LogLogo
  | LogInfo string
  | LogWarn string
  | LogError string
  | LogLog string
  | Called call
  | Fulfilled call
  | Rejected call
  | OutputFile string string
  | IsSourceFile string
  | Watch string "matcher list" bool
  | On string
  | ServerStart serverConfig
  | AddListener string

text \<open>
  A computation is the trace of its effects and its outcome: \<open>Inl\<close> a thrown
  error (or a rejection), \<open>Inr\<close> a value. A promise is modelled by its
  settlement, so a chain of \<open>then\<close> callbacks runs in sequence.
\<close>

type_synonym 'a comp = "effect list \<times> (js_error + 'a)"

definition pure_c :: "'a \<Rightarrow> 'a comp" where
  "pure_c v = ([], Inr v)"

definition throw_c :: "js_error \<Rightarrow> 'a comp" where
  "throw_c e = ([], Inl e)"

definition emit :: "effect \<Rightarrow> unit comp" where
  "emit x = ([x], Inr ())"

definition bind_c :: "'a comp \<Rightarrow> ('a \<Rightarrow> 'b comp) \<Rightarrow> 'b comp" where
  "bind_c m f =
     (case m of
        (t, Inl e) \<Rightarrow> (t, Inl e)
      | (t, Inr v) \<Rightarrow> (case f v of (t', r) \<Rightarrow> (t @ t', r)))"

text \<open>\<open>try { m } catch (e) { h e }\<close>.\<close>

definition catch_c :: "'a comp \<Rightarrow> (js_error \<Rightarrow> 'a comp) \<Rightarrow> 'a comp" where
  "catch_c m h =
     (case m of
        (t, Inl e) \<Rightarrow> (case h e of (t', r) \<Rightarrow> (t @ t', r))
      | (t, Inr v) \<Rightarrow> (t, Inr v))"

text \<open>
  \<open>p.then(f)\<close>: the callback runs only when \<open>p\<close> is fulfilled, and an error
  thrown in it rejects the result. \<open>p.catch(h)\<close>: the handler runs only when
  \<open>p\<close> is rejected.
\<close>

definition then_p :: "'a comp \<Rightarrow> ('a \<Rightarrow> 'b comp) \<Rightarrow> 'b comp" where
  "then_p p f = bind_c p f"

definition catch_p :: "'a comp \<Rightarrow> (js_error \<Rightarrow> 'a comp) \<Rightarrow> 'a comp" where
  "catch_p p h = catch_c p h"

definition resolve_p :: "'a \<Rightarrow> 'a comp" where
  "resolve_p v = pure_c v"

text \<open>
  A promise chain that the enclosing function neither returns nor awaits: its
  effects happen, its settlement is not the function's outcome.
\<close>

definition detach :: "'a comp \<Rightarrow> unit comp" where
  "detach p = (fst p, Inr ())"

text \<open>A collaborator's promise, given how it settles.\<close>

definition promise_of :: "call \<Rightarrow> js_error + 'a \<Rightarrow> 'a comp" where
  "promise_of c r =
     (case r of
        Inl e \<Rightarrow> ([Called c, Rejected c], Inl e)
      | Inr v \<Rightarrow> ([Called c, Fulfilled c], Inr v))"

section \<open>The environment of a command\<close>

record site_config =
  baseUrl :: "string option"

text \<open>
  What the required modules and the Site object answer. None of them is part
  of index.js; each is a parameter of the model.
\<close>

record env =
  cwd :: string
  findUp_sync :: "string \<Rightarrow> string option"
  path_dirname :: "string \<Rightarrow> string"
  path_resolve :: "string \<Rightarrow> string \<Rightarrow> string"
  path_join :: "string \<Rightarrow> string \<Rightarrow> string"
  readFileSync :: "string \<Rightarrow> js_error + string"
  outputFileSync :: "string \<Rightarrow> string \<Rightarrow> js_error + unit"
  cheerio_children :: "string \<Rightarrow> element list"
  htmlBeautify :: "string \<Rightarrow> js_error + string"
  nunjucks_renderString :: "string \<Rightarrow> string \<Rightarrow> string \<Rightarrow> js_error + string"
  includeFile :: "string \<Rightarrow> config \<Rightarrow> js_error + string"
  renderFile :: "string \<Rightarrow> config \<Rightarrow> js_error + string"
  isSourceFile :: "string \<Rightarrow> bool"
  readSiteConfig :: "js_error + site_config"
  generate :: "js_error + unit"
  rebuildAffectedSourceFiles :: "string \<Rightarrow> js_error + unit"
  buildAsset :: "string \<Rightarrow> js_error + unit"
  removeAsset :: "string \<Rightarrow> js_error + unit"
  chokidar_watch :: "js_error + unit"
  liveServer_start :: "js_error + unit"
  server_address :: "(string \<times> string) option"

section \<open>The include and render actions\<close>

text \<open>
  \<open>path.dirname(siteConfigPath)\<close>: \<open>findUp.sync\<close> answers \<open>null\<close> when no
  ancestor directory holds the file, and \<open>path.dirname\<close> throws a TypeError on
  an argument that is not a string.
\<close>

definition dirname_of :: "env \<Rightarrow> string option \<Rightarrow> string comp" where
  "dirname_of env siteConfigPath =
     (case siteConfigPath of
        None \<Rightarrow> throw_c (JsError TypeError ''Path must be a string. Received null'')
      | Some p \<Rightarrow> pure_c (path_dirname env p))"

text \<open>Lines 58 to 65: the variables file is read inside try/catch.\<close>

definition read_variables :: "env \<Rightarrow> string \<Rightarrow> string comp" where
  "read_variables env root =
     catch_c ([], readFileSync env (path_resolve env root USER_VARIABLES_PATH))
       (\<lambda>e. bind_c (emit (LogWarn (message e))) (\<lambda>_. pure_c ''''))"

text \<open>Lines 57 to 75: read, parse, inject the placeholder.\<close>

definition user_variables :: "env \<Rightarrow> string \<Rightarrow> (string js_object) comp" where
  "user_variables env root =
     bind_c (read_variables env root) (\<lambda>content.
     pure_c (variables_of_children (cheerio_children env content)))"

text \<open>Lines 80 to 87 (and 112 to 119): write the result, or print it.\<close>

definition write_or_log :: "env \<Rightarrow> string option \<Rightarrow> string \<Rightarrow> unit comp" where
  "write_or_log env output result =
     (if truthy output then
        (let outputPath = path_resolve env (cwd env) (or_else output '''') in
         bind_c ([OutputFile outputPath result], outputFileSync env outputPath result) (\<lambda>_.
         bind_c (emit LogLogo) (\<lambda>_.
         emit (LogInfo (''Result was written to '' @ outputPath)))))
      else emit (LogLog result))"

text \<open>The config of the include action, lines 50 to 55 and 76.\<close>

definition include_config :: "string \<Rightarrow> string js_object \<Rightarrow> config" where
  "include_config root userDefinedVariables =
     \<lparr> rootPath = root,
       baseUrlMap = js_assign root True [],
       userDefinedVariablesMap = Some (js_assign root userDefinedVariables []) \<rparr>"

definition include_action :: "env \<Rightarrow> string \<Rightarrow> string option \<Rightarrow> unit comp" where
  "include_action env file output =
     bind_c (dirname_of env (findUp_sync env SITE_CONFIG_NAME)) (\<lambda>root.
     bind_c (user_variables env root) (\<lambda>userDefinedVariables.
       let cfg = include_config root userDefinedVariables;
           file_path = path_resolve env (cwd env) file
       in detach
            (catch_p
               (then_p (promise_of (IncludeFile file_path cfg) (includeFile env file_path cfg))
                  (\<lambda>result. write_or_log env output result))
               (\<lambda>error.
                  bind_c (emit LogLogo) (\<lambda>_.
                  bind_c (emit (LogError ''Error processing fragment include:'')) (\<lambda>_.
                  emit (LogError (message error))))))))"

text \<open>
  The config of the render action, lines 101 to 105: no variables are loaded.
  In the callback of lines 107 to 119 the formatter and the template pass may
  throw; the catch of line 121 then logs the error.
\<close>

definition render_config :: "string \<Rightarrow> config" where
  "render_config root =
     \<lparr> rootPath = root,
       baseUrlMap = js_assign root True [],
       userDefinedVariablesMap = None \<rparr>"

definition render_action :: "env \<Rightarrow> string \<Rightarrow> string option \<Rightarrow> unit comp" where
  "render_action env file output =
     bind_c (dirname_of env (findUp_sync env SITE_CONFIG_NAME)) (\<lambda>root.
       let cfg = render_config root;
           file_path = path_resolve env (cwd env) file
       in detach
            (catch_p
               (then_p (promise_of (RenderFile file_path cfg) (renderFile env file_path cfg))
                  (\<lambda>result.
                     bind_c ([], htmlBeautify env result) (\<lambda>beautified.
                     bind_c ([], nunjucks_renderString env beautified root root)
                       (\<lambda>formattedResult.
                     write_or_log env output formattedResult))))
               (\<lambda>error.
                  bind_c (emit (LogError ''Error processing file rendering:'')) (\<lambda>_.
                  emit (LogError (message error))))))"

section \<open>The serve action\<close>

subsection \<open>The three watch handlers (lines 153 to 187)\<close>

definition addHandler :: "env \<Rightarrow> string \<Rightarrow> unit comp" where
  "addHandler env filePath =
     bind_c (emit (LogInfo (''Reload for file add: '' @ filePath))) (\<lambda>_.
     detach
       (catch_p
          (then_p (resolve_p (''''::string)) (\<lambda>_.
             bind_c (emit (IsSourceFile filePath)) (\<lambda>_.
             if isSourceFile env filePath
             then promise_of (RebuildAffectedSourceFiles filePath)
                    (rebuildAffectedSourceFiles env filePath)
             else promise_of (BuildAsset filePath) (buildAsset env filePath))))
          (\<lambda>err. emit (LogError (message err)))))"

definition changeHandler :: "env \<Rightarrow> string \<Rightarrow> unit comp" where
  "changeHandler env filePath =
     bind_c (emit (LogInfo (''Reload for file change: '' @ filePath))) (\<lambda>_.
     detach
       (catch_p
          (then_p (resolve_p (''''::string)) (\<lambda>_.
             bind_c (emit (IsSourceFile filePath)) (\<lambda>_.
             if isSourceFile env filePath
             then promise_of (RebuildAffectedSourceFiles filePath)
                    (rebuildAffectedSourceFiles env filePath)
             else promise_of (BuildAsset filePath) (buildAsset env filePath))))
          (\<lambda>err. emit (LogError (message err)))))"

definition removeHandler :: "env \<Rightarrow> string \<Rightarrow> unit comp" where
  "removeHandler env filePath =
     bind_c (emit (LogInfo (''Reload for file deletion: '' @ filePath))) (\<lambda>_.
     detach
       (catch_p
          (then_p (resolve_p (''''::string)) (\<lambda>_.
             bind_c (emit (IsSourceFile filePath)) (\<lambda>_.
             if isSourceFile env filePath
             then promise_of (RebuildAffectedSourceFiles filePath)
                    (rebuildAffectedSourceFiles env filePath)
             else promise_of (RemoveAsset filePath) (removeAsset env filePath))))
          (\<lambda>err. emit (LogError (message err)))))"

subsection \<open>The ignore list (lines 208 to 212)\<close>

text \<open>
  The regular expression \<open>/(^|[/\\])\../\<close>: somewhere in the string, at its start
  or right after a slash or a backslash, stands a dot followed by one more
  character, and that character is not a line terminator (the pattern's final
  \<open>.\<close> matches none). A string here is the UTF-8 bytes of the JavaScript
  string. The line terminators are LF, CR, U+2028 and U+2029; the last two are
  the byte sequences E2 80 A8 and E2 80 A9. All other characters the pattern
  names are ASCII, and an ASCII byte never lies inside a longer UTF-8 sequence.
\<close>

definition is_sep :: "char \<Rightarrow> bool" where
  "is_sep c = (c = CHR ''/'' \<or> c = CHR 0x5C)"

text \<open>The string starts with a line terminator.\<close>

fun line_terminator_at :: "string \<Rightarrow> bool" where
  "line_terminator_at (a # b # c # cs) =
     (a = CHR 0x0A \<or> a = CHR 0x0D
      \<or> (a = CHR 0xE2 \<and> b = CHR 0x80 \<and> (c = CHR 0xA8 \<or> c = CHR 0xA9)))"
| "line_terminator_at (a # cs) = (a = CHR 0x0A \<or> a = CHR 0x0D)"
| "line_terminator_at [] = False"

text \<open>\<open>\..\<close> at the head of the string: a dot, then a character that \<open>.\<close> matches.\<close>

fun dot_then_char :: "string \<Rightarrow> bool" where
  "dot_then_char (c # d # cs) = (c = CHR ''.'' \<and> \<not> line_terminator_at (d # cs))"
| "dot_then_char cs = False"

text \<open>
  The unanchored search, position by position; the flag says that the position
  is the start of the string or follows a separator.
\<close>

fun regexp_scan :: "bool \<Rightarrow> string \<Rightarrow> bool" where
  "regexp_scan b [] = False"
| "regexp_scan b (c # cs) = ((b \<and> dot_then_char (c # cs)) \<or> regexp_scan (is_sep c) cs)"

definition dot_regexp_test :: "string \<Rightarrow> bool" where
  "dot_regexp_test x = regexp_scan True x"

definition endsWith :: "string \<Rightarrow> string \<Rightarrow> bool" where
  "endsWith x s = suffix s x"

text \<open>
  How the watcher reads an entry of \<open>ignored\<close>: a regular expression is tested
  on the path, a function is called on it, and a path string excludes that
  path and, since the watcher does not descend into an ignored directory,
  every path below it. The watcher reads a path string as a glob pattern; the
  reading below is that of a string without glob characters.
\<close>

fun matches :: "matcher \<Rightarrow> string \<Rightarrow> bool" where
  "matches (PathString s) x = (x = s \<or> prefix (s @ ''/'') x)"
| "matches DotRegExp x = dot_regexp_test x"
| "matches (EndsWith s) x = endsWith x s"

definition anymatch :: "matcher list \<Rightarrow> string \<Rightarrow> bool" where
  "anymatch ms x = list_ex (\<lambda>m. matches m x) ms"

definition serve_ignored :: "string \<Rightarrow> matcher list" where
  "serve_ignored outputFolder =
     [PathString outputFolder, DotRegExp, EndsWith ''___jb_tmp___'', EndsWith ''___jb_old___'']"

subsection \<open>The watcher\<close>

datatype event_kind = Add | Change | Unlink

text \<open>The handlers bound at lines 215 to 218.\<close>

fun handler_of :: "env \<Rightarrow> event_kind \<Rightarrow> string \<Rightarrow> unit comp" where
  "handler_of env Add = addHandler env"
| "handler_of env Change = changeHandler env"
| "handler_of env Unlink = removeHandler env"

text \<open>
  The watcher's side of the contract, as far as the list given by index.js
  goes: an event on a path the list matches is dropped, any other event
  reaches the handler bound to its kind. The watcher's own filters (names of
  editors' atomic writes) are not part of it.
\<close>

definition watcher_emit :: "env \<Rightarrow> matcher list \<Rightarrow> event_kind \<times> string \<Rightarrow> unit comp" where
  "watcher_emit env ignored ev =
     (if anymatch ignored (snd ev) then pure_c () else handler_of env (fst ev) (snd ev))"

text \<open>
  A stream of events. An error thrown by a handler would reach the watcher
  and end the stream, which is what \<open>bind_c\<close> does with it.
\<close>

fun run_events :: "env \<Rightarrow> matcher list \<Rightarrow> (event_kind \<times> string) list \<Rightarrow> unit comp" where
  "run_events env ignored [] = pure_c ()"
| "run_events env ignored (ev # evs) =
     bind_c (watcher_emit env ignored ev) (\<lambda>_. run_events env ignored evs)"

subsection \<open>The action (lines 147 to 233)\<close>

record serve_options =
  opt_port :: "string option"
  opt_open :: bool

text \<open>Lines 207 to 218.\<close>

definition install_watcher :: "env \<Rightarrow> string \<Rightarrow> string \<Rightarrow> unit comp" where
  "install_watcher env rootFolder outputFolder =
     bind_c ([Watch rootFolder (serve_ignored outputFolder) True], chokidar_watch env) (\<lambda>_.
     bind_c (emit (On ''add'')) (\<lambda>_.
     bind_c (emit (On ''change'')) (\<lambda>_.
     emit (On ''unlink''))))"

text \<open>
  Lines 221 to 228. The listener logs when (and if) the server reports that
  it is listening; \<open>server_address\<close> is the address it then has.
\<close>

definition start_server :: "env \<Rightarrow> string \<Rightarrow> serverConfig \<Rightarrow> unit comp" where
  "start_server env outputFolder sc =
     bind_c ([ServerStart sc], liveServer_start env) (\<lambda>_.
     bind_c (emit (AddListener ''listening'')) (\<lambda>_.
     case server_address env of
       None \<Rightarrow> pure_c ()
     | Some (address, port) \<Rightarrow>
         (let serveHost = (if address = ''0.0.0.0'' then ''127.0.0.1'' else address);
              serveURL = ''http://'' @ serveHost @ '':'' @ port
          in bind_c (emit (LogInfo (''Serving '' @ [CHR 0x22] @ outputFolder @ [CHR 0x22] @ '' at '' @ serveURL))) (\<lambda>_.
             emit (LogInfo ''Press CTRL+C to stop ...'')))))"

text \<open>
  The \<open>serverConfig\<close> object is shared by the callbacks: the first one pushes
  the mount point, the last one hands the object to the server. Here the
  updated object is passed along the chain.
\<close>

definition serve_action :: "env \<Rightarrow> string option \<Rightarrow> serve_options \<Rightarrow> unit comp" where
  "serve_action env root options =
     (let rootFolder = path_resolve env (cwd env) (or_else root (cwd env));
          outputFolder = path_join env rootFolder ''_site'';
          serverConfig =
            \<lparr> sc_open = opt_open options,
              sc_logLevel = 0,
              sc_root = outputFolder,
              sc_port = (if truthy (opt_port options)
                         then PortString (or_else (opt_port options) '''')
                         else PortNumber 8080),
              sc_mount = [] \<rparr>
      in bind_c (emit LogLogo) (\<lambda>_.
         detach
           (catch_p
              (then_p
                 (then_p
                    (then_p (promise_of ReadSiteConfig (readSiteConfig env))
                       (\<lambda>cfg.
                          let sc = serverConfig
                                \<lparr> sc_mount := sc_mount serverConfig
                                     @ [(or_else (baseUrl cfg) ''/'', outputFolder)] \<rparr>
                          in then_p (promise_of Generate (generate env)) (\<lambda>_. resolve_p sc)))
                    (\<lambda>sc. bind_c (install_watcher env rootFolder outputFolder) (\<lambda>_. pure_c sc)))
                 (\<lambda>sc. start_server env outputFolder sc))
              (\<lambda>error. emit (LogError (message error))))))"

section \<open>Reading a trace\<close>

text \<open>The collaborator calls of a trace, in order.\<close>

fun called :: "effect \<Rightarrow> call option" where
  "called (Called c) = Some c"
| "called x = None"

definition calls_of :: "effect list \<Rightarrow> call list" where
  "calls_of t = List.map_filter called t"

fun is_watch :: "effect \<Rightarrow> bool" where
  "is_watch (Watch r i b) = True"
| "is_watch x = False"

fun is_server_start :: "effect \<Rightarrow> bool" where
  "is_server_start (ServerStart sc) = True"
| "is_server_start x = False"

fun is_output_file :: "effect \<Rightarrow> bool" where
  "is_output_file (OutputFile p d) = True"
| "is_output_file x = False"

text \<open>
  \<open>precedes P Q t\<close>: no entry satisfying \<open>Q\<close> stands in \<open>t\<close> before the first
  entry satisfying \<open>P\<close> (so a \<open>Q\<close> entry, if any, comes after a \<open>P\<close> entry).
\<close>

fun precedes :: "(effect \<Rightarrow> bool) \<Rightarrow> (effect \<Rightarrow> bool) \<Rightarrow> effect list \<Rightarrow> bool" where
  "precedes P Q [] = True"
| "precedes P Q (x # xs) = (P x \<or> (\<not> Q x \<and> precedes P Q xs))"

section \<open>The specification's words, for comparison\<close>

text \<open>
  The transition table of the specification: the builder action for an event
  kind and a classification (\<open>True\<close> for source, \<open>False\<close> for asset).
\<close>

fun spec_transition :: "event_kind \<Rightarrow> bool \<Rightarrow> string \<Rightarrow> call" where
  "spec_transition Add True p = RebuildAffectedSourceFiles p"
| "spec_transition Change True p = RebuildAffectedSourceFiles p"
| "spec_transition Add False p = BuildAsset p"
| "spec_transition Change False p = BuildAsset p"
| "spec_transition Unlink True p = RebuildAffectedSourceFiles p"
| "spec_transition Unlink False p = RemoveAsset p"

text \<open>How the builder settles the action of the table, in a given environment.\<close>

fun settles :: "env \<Rightarrow> call \<Rightarrow> js_error + unit" where
  "settles env (RebuildAffectedSourceFiles p) = rebuildAffectedSourceFiles env p"
| "settles env (BuildAsset p) = buildAsset env p"
| "settles env (RemoveAsset p) = removeAsset env p"
| "settles env c = Inr ()"

text \<open>The last segment of a path, and a path strictly below a directory.\<close>

definition basename :: "string \<Rightarrow> string" where
  "basename p = rev (takeWhile (\<lambda>c. c \<noteq> CHR ''/'') (rev p))"

definition under_dir :: "string \<Rightarrow> string \<Rightarrow> bool" where
  "under_dir dir p = prefix (dir @ ''/'') p"

section \<open>Sample environments\<close>

text \<open>
  A project rooted at /site, with a variables file declaring \<open>year\<close> twice
  and its own \<open>baseUrl\<close>; the command runs in /site/docs.
\<close>

definition sample_variables :: string where
  "sample_variables =
     ''<span id=year>2017</span><span id=baseUrl>/docs</span><span id=year>2018</span>''"

definition sample_children :: "element list" where
  "sample_children =
     [\<lparr>attr_id = Some ''year'', html = ''2017''\<rparr>,
      \<lparr>attr_id = Some ''baseUrl'', html = ''/docs''\<rparr>,
      \<lparr>attr_id = Some ''year'', html = ''2018''\<rparr>]"

definition enoent :: js_error where
  "enoent = JsError GenericError ''ENOENT: no such file or directory''"

definition sample_env :: env where
  "sample_env =
     \<lparr> cwd = ''/site/docs'',
       findUp_sync = (\<lambda>name. if name = ''site.json'' then Some ''/site/site.json'' else None),
       path_dirname = (\<lambda>p. rev (tl (dropWhile (\<lambda>c. c \<noteq> CHR ''/'') (rev p)))),
       path_resolve = (\<lambda>a b. if take 1 b = ''/'' then b else a @ ''/'' @ b),
       path_join = (\<lambda>a b. a @ ''/'' @ b),
       readFileSync = (\<lambda>p. if p = ''/site/_markbind/variables.md''
                             then Inr sample_variables else Inl enoent),
       outputFileSync = (\<lambda>p d. Inr ()),
       cheerio_children = (\<lambda>c. if c = sample_variables then sample_children else []),
       htmlBeautify = (\<lambda>s. Inr s),
       nunjucks_renderString = (\<lambda>s b h. Inr s),
       includeFile = (\<lambda>p c. Inr ''included''),
       renderFile = (\<lambda>p c. Inr ''rendered''),
       isSourceFile = (\<lambda>p. endsWith p ''.md''),
       readSiteConfig = Inr \<lparr>baseUrl = Some ''/docs''\<rparr>,
       generate = Inr (),
       rebuildAffectedSourceFiles = (\<lambda>p. Inr ()),
       buildAsset = (\<lambda>p. Inr ()),
       removeAsset = (\<lambda>p. Inr ()),
       chokidar_watch = Inr (),
       liveServer_start = Inr (),
       server_address = Some (''0.0.0.0'', ''8080'') \<rparr>"

text \<open>The same machine with no site.json above the working directory and no variables file.\<close>

definition outside_env :: env where
  "outside_env = sample_env \<lparr> findUp_sync := (\<lambda>name. None), readFileSync := (\<lambda>p. Inl enoent) \<rparr>"

text \<open>The same project with a builder whose every incremental action fails, and a generation that fails.\<close>

definition failing_env :: env where
  "failing_env =
     sample_env \<lparr> readFileSync := (\<lambda>p. Inl enoent),
                  generate := Inl (JsError GenericError ''generation failed''),
                  rebuildAffectedSourceFiles := (\<lambda>p. Inl (JsError GenericError ''rebuild failed'')),
                  buildAsset := (\<lambda>p. Inl (JsError GenericError ''copy failed'')),
                  removeAsset := (\<lambda>p. Inl (JsError GenericError ''remove failed'')) \<rparr>"

lemmas comp_defs =
  pure_c_def throw_c_def emit_def bind_c_def catch_c_def then_p_def catch_p_def resolve_p_def
  detach_def promise_of_def

section \<open>Properties of the variable map\<close>

subsection \<open>Property assignment\<close>

lemma keys_js_assign:
  "fst ` set (js_assign k v obj) =
     (if k = ''__proto__'' then fst ` set obj else insert k (fst ` set obj))"
  by (simp add: js_assign_def dom_update)

lemma distinct_js_assign:
  "distinct (map fst obj) \<Longrightarrow> distinct (map fst (js_assign k v obj))"
  by (simp add: js_assign_def distinct_update)

lemma map_of_js_assign:
  "map_of (js_assign k v obj) k' =
     (if k = ''__proto__'' then map_of obj k' else if k' = k then Some v else map_of obj k')"
  by (simp add: js_assign_def update_conv)

lemma keys_each_child:
  "fst ` set (each_child obj el) = fst ` set obj \<union> ({key_of el} - {''__proto__''})"
  by (auto simp: each_child_def key_of_def keys_js_assign)

lemma distinct_each_child:
  "distinct (map fst obj) \<Longrightarrow> distinct (map fst (each_child obj el))"
  by (simp add: each_child_def distinct_js_assign)

lemma map_of_each_child:
  "k \<noteq> ''__proto__'' \<Longrightarrow>
   map_of (each_child obj el) k = (if key_of el = k then Some (html el) else map_of obj k)"
  by (auto simp: each_child_def key_of_def map_of_js_assign)

subsection \<open>The loop, from any starting object\<close>

lemma keys_foldl_each_child:
  "fst ` set (foldl each_child obj els) =
     fst ` set obj \<union> (key_of ` set els - {''__proto__''})"
proof (induction els arbitrary: obj)
  case Nil
  then show ?case by simp
next
  case (Cons el els)
  show ?case
    by (auto simp: Cons.IH keys_each_child)
qed

lemma distinct_foldl_each_child:
  "distinct (map fst obj) \<Longrightarrow> distinct (map fst (foldl each_child obj els))"
  by (induction els arbitrary: obj) (simp_all add: distinct_each_child)

lemma find_app:
  "List.find P (xs @ ys) =
     (case List.find P xs of None \<Rightarrow> List.find P ys | Some x \<Rightarrow> Some x)"
  by (induction xs) auto

text \<open>Last wins: the value under a key is that of the last element stored under it.\<close>

lemma map_of_foldl_each_child:
  "k \<noteq> ''__proto__'' \<Longrightarrow>
   map_of (foldl each_child obj els) k =
     (case List.find (\<lambda>e. key_of e = k) (rev els) of
        None \<Rightarrow> map_of obj k
      | Some e \<Rightarrow> Some (html e))"
proof (induction els arbitrary: obj)
  case Nil
  then show ?case by simp
next
  case (Cons el els)
  show ?case
    using Cons.prems
    by (simp add: Cons.IH[OF Cons.prems] find_app map_of_each_child split: option.splits)
qed

subsection \<open>The finished map\<close>

lemma keys_variables_of_children:
  "fst ` set (variables_of_children els) =
     insert ''baseUrl'' (key_of ` set els - {''__proto__''})"
  by (simp add: variables_of_children_def inject_baseUrl_def parse_children_def
      keys_js_assign keys_foldl_each_child)

lemma distinct_variables_of_children:
  "distinct (map fst (variables_of_children els))"
  by (simp add: variables_of_children_def inject_baseUrl_def parse_children_def
      distinct_js_assign distinct_foldl_each_child)

lemma baseUrl_of_children:
  "map_of (variables_of_children els) ''baseUrl'' = Some ''{{baseUrl}}''"
  by (simp add: variables_of_children_def inject_baseUrl_def map_of_js_assign)

lemma map_of_variables_of_children:
  "k \<noteq> ''__proto__'' \<Longrightarrow> k \<noteq> ''baseUrl'' \<Longrightarrow>
   map_of (variables_of_children els) k =
     map_option html (List.find (\<lambda>e. key_of e = k) (rev els))"
  by (simp add: variables_of_children_def inject_baseUrl_def parse_children_def
      map_of_js_assign map_of_foldl_each_child split: option.splits)

lemma one_entry_per_key:
  "distinct (map fst obj) \<Longrightarrow> map_of obj k = Some v \<Longrightarrow>
   length (filter (\<lambda>kv. fst kv = k) obj) = 1"
proof (induction obj)
  case Nil
  then show ?case by simp
next
  case (Cons p obj)
  show ?case
  proof (cases "fst p = k")
    case True
    with Cons.prems have "k \<notin> fst ` set obj" by auto
    then have "filter (\<lambda>kv. fst kv = k) obj = []"
      by (auto simp: filter_empty_conv)
    with True show ?thesis by simp
  next
    case False
    with Cons show ?thesis by (cases p) auto
  qed
qed

text \<open>The read never fails the pipeline: an unreadable file counts as empty content.\<close>

lemma user_variables_value:
  "snd (user_variables env root) =
     Inr (variables_of_children (cheerio_children env
            (case readFileSync env (path_resolve env root USER_VARIABLES_PATH) of
               Inl e \<Rightarrow> '''' | Inr c \<Rightarrow> c)))"
  by (simp add: user_variables_def read_variables_def bind_c_def catch_c_def pure_c_def emit_def
      split: sum.splits prod.splits)

lemma key_of_declared:
  assumes "\<forall>el \<in> set els. attr_id el \<noteq> None"
  shows "key_of ` set els = declared_ids els"
proof -
  have "key_of el = the (attr_id el)" if "el \<in> set els" for el
    using that assms by (auto simp: key_of_def to_property_key_def)
  moreover have "declared_ids els = (\<lambda>el. the (attr_id el)) ` {el \<in> set els. attr_id el \<noteq> None}"
    by (auto simp: declared_ids_def List.map_filter_def image_iff)
  ultimately show ?thesis using assms by (auto simp: image_iff)
qed

lemma key_of_Some: "attr_id el \<noteq> None \<Longrightarrow> (key_of el = k) = (attr_id el = Some k)"
  by (auto simp: key_of_def to_property_key_def)

lemma find_key_of_declared:
  assumes "\<forall>el \<in> set els. attr_id el \<noteq> None"
  shows "List.find (\<lambda>e. key_of e = k) els = List.find (\<lambda>e. attr_id e = Some k) els"
  using assms by (induction els) (auto simp: key_of_Some)

text \<open>
  C3. Whatever the variables file holds, and also when it cannot be read, the
  map produced by reading, parsing and injecting the placeholder has the key
  \<open>baseUrl\<close>, exactly once, with the value \<open>{{baseUrl}}\<close>: the injected value
  replaces any \<open>baseUrl\<close> the file declares.
\<close>

theorem baseUrl_placeholder_forced:
  "(case snd (user_variables env root) of
      Inl e \<Rightarrow> False
    | Inr vars \<Rightarrow>
        map_of vars ''baseUrl'' = Some ''{{baseUrl}}''
        \<and> length (filter (\<lambda>kv. fst kv = ''baseUrl'') vars) = 1)
   \<and> map_of (variables_of_children els) ''baseUrl'' = Some ''{{baseUrl}}''"
  by (simp add: user_variables_value baseUrl_of_children
      one_entry_per_key[OF distinct_variables_of_children baseUrl_of_children])

theorem baseUrl_placeholder_forced_witness:
  "user_variables sample_env ''/site''
     = ([], Inr [(''year'', ''2018''), (''baseUrl'', ''{{baseUrl}}'')])
   \<and> user_variables outside_env ''/site''
     = ([LogWarn ''ENOENT: no such file or directory''], Inr [(''baseUrl'', ''{{baseUrl}}'')])"
  using baseUrl_placeholder_forced [of sample_env "''/site''" sample_children]
        baseUrl_placeholder_forced [of outside_env "''/site''" "[]"]
  by (simp add: user_variables_def read_variables_def bind_c_def catch_c_def pure_c_def emit_def
      sample_env_def outside_env_def USER_VARIABLES_PATH_def sample_variables_def sample_children_def
      variables_of_children_def inject_baseUrl_def parse_children_def each_child_def js_assign_def
      to_property_key_def enoent_def)

text \<open>
  C4, as stated, fails: a file whose only top-level element has no id declares
  no id at all, and still its map has an entry besides \<open>baseUrl\<close>.
\<close>

theorem undeclared_entry_counterexample:
  "declared_ids [\<lparr>attr_id = None, html = ''hi''\<rparr>] = {}
   \<and> variables_of_children [\<lparr>attr_id = None, html = ''hi''\<rparr>]
       = [(''undefined'', ''hi''), (''baseUrl'', ''{{baseUrl}}'')]"
  by (simp add: declared_ids_def List.map_filter_def variables_of_children_def inject_baseUrl_def
      parse_children_def each_child_def js_assign_def to_property_key_def)

text \<open>
  C4, amended. When every top-level element of the variables file carries an
  id and no id is \<open>__proto__\<close>, the map has one entry per key, its keys are
  the declared ids together with \<open>baseUrl\<close>, so the entries other than
  \<open>baseUrl\<close> are as many as the declared ids other than \<open>baseUrl\<close>; the
  \<open>baseUrl\<close> entry is \<open>{{baseUrl}}\<close> whatever the file declares; and every
  other id holds the markup of its last occurrence.
\<close>

theorem declared_ids_are_the_entries:
  assumes "\<forall>el \<in> set els. attr_id el \<noteq> None"
      and "''__proto__'' \<notin> declared_ids els"
  shows "distinct (map fst (variables_of_children els))
       \<and> fst ` set (variables_of_children els) = declared_ids els \<union> {''baseUrl''}
       \<and> length (filter (\<lambda>kv. fst kv \<noteq> ''baseUrl'') (variables_of_children els))
           = card (declared_ids els - {''baseUrl''})
       \<and> map_of (variables_of_children els) ''baseUrl'' = Some ''{{baseUrl}}''
       \<and> (\<forall>k. k \<noteq> ''baseUrl'' \<longrightarrow>
             map_of (variables_of_children els) k
               = map_option html (List.find (\<lambda>e. attr_id e = Some k) (rev els)))"
proof -
  let ?V = "variables_of_children els"
  have d: "distinct (map fst ?V)" by (rule distinct_variables_of_children)
  have k: "fst ` set ?V = declared_ids els \<union> {''baseUrl''}"
    using assms(2) by (simp add: keys_variables_of_children key_of_declared[OF assms(1)])
  have m: "map fst (filter (\<lambda>kv. fst kv \<noteq> ''baseUrl'') ?V)
      = filter (\<lambda>k. k \<noteq> ''baseUrl'') (map fst ?V)"
    by (simp add: filter_map comp_def)
  have "length (filter (\<lambda>kv. fst kv \<noteq> ''baseUrl'') ?V)
      = length (map fst (filter (\<lambda>kv. fst kv \<noteq> ''baseUrl'') ?V))"
    by (simp only: length_map)
  also have "\<dots> = length (filter (\<lambda>k. k \<noteq> ''baseUrl'') (map fst ?V))"
    by (simp only: m)
  also have "\<dots> = card (set (filter (\<lambda>k. k \<noteq> ''baseUrl'') (map fst ?V)))"
    by (rule distinct_card[symmetric]) (rule distinct_filter[OF d])
  also have "set (filter (\<lambda>k. k \<noteq> ''baseUrl'') (map fst ?V)) = declared_ids els - {''baseUrl''}"
    using k by auto
  finally have n: "length (filter (\<lambda>kv. fst kv \<noteq> ''baseUrl'') ?V)
      = card (declared_ids els - {''baseUrl''})" .
  have l: "map_of ?V k = map_option html (List.find (\<lambda>e. attr_id e = Some k) (rev els))"
    if "k \<noteq> ''baseUrl''" for k
  proof (cases "k = ''__proto__''")
    case False
    have "\<forall>el \<in> set (rev els). attr_id el \<noteq> None" using assms(1) by simp
    from find_key_of_declared[OF this] map_of_variables_of_children[OF False that]
    show ?thesis by simp
  next
    case True
    then have "k \<notin> fst ` set ?V" using assms(2) k by auto
    then have "map_of ?V k = None" by (simp add: map_of_eq_None_iff)
    moreover have "List.find (\<lambda>e. attr_id e = Some k) (rev els) = None"
      using assms(2) True
      by (auto simp: find_None_iff declared_ids_def List.map_filter_def image_iff)
    ultimately show ?thesis by simp
  qed
  have b: "map_of ?V ''baseUrl'' = Some ''{{baseUrl}}''" by (rule baseUrl_of_children)
  show ?thesis
  proof (intro conjI allI impI)
    show "distinct (map fst ?V)" by (rule d)
    show "fst ` set ?V = declared_ids els \<union> {''baseUrl''}" by (rule k)
    show "length (filter (\<lambda>kv. fst kv \<noteq> ''baseUrl'') ?V) = card (declared_ids els - {''baseUrl''})"
      by (rule n)
    show "map_of ?V ''baseUrl'' = Some ''{{baseUrl}}''" by (rule b)
    show "map_of ?V k = map_option html (List.find (\<lambda>e. attr_id e = Some k) (rev els))"
      if "k \<noteq> ''baseUrl''" for k
      by (rule l[OF that])
  qed
qed

theorem declared_ids_are_the_entries_witness:
  "list_all (\<lambda>el. attr_id el \<noteq> None) sample_children
   \<and> ''__proto__'' \<notin> declared_ids sample_children
   \<and> declared_ids sample_children = {''year'', ''baseUrl''}
   \<and> variables_of_children sample_children
       = [(''year'', ''2018''), (''baseUrl'', ''{{baseUrl}}'')]
   \<and> length (filter (\<lambda>kv. fst kv \<noteq> ''baseUrl'') (variables_of_children sample_children)) = 1"
proof -
  have a: "\<forall>el \<in> set sample_children. attr_id el \<noteq> None"
    by (simp add: sample_children_def)
  have i: "declared_ids sample_children = {''year'', ''baseUrl''}"
    by (auto simp: declared_ids_def List.map_filter_def sample_children_def)
  have b: "''__proto__'' \<notin> declared_ids sample_children"
    by (simp add: i)
  have v: "variables_of_children sample_children
      = [(''year'', ''2018''), (''baseUrl'', ''{{baseUrl}}'')]"
    by (simp add: sample_children_def variables_of_children_def inject_baseUrl_def
        parse_children_def each_child_def js_assign_def to_property_key_def)
  have c: "card (declared_ids sample_children - {''baseUrl''}) = 1"
    by (simp add: i)
  from declared_ids_are_the_entries [OF a b] a b i v c show ?thesis
    by (simp add: list_all_iff)
qed

text \<open>
  C7. When the variables file cannot be read, the read step throws nothing:
  it yields the empty content, and the warning carrying the error's message is
  its only effect. With a parser that finds no element in empty content, the
  parsed map is empty and the finished map holds the placeholder alone.
\<close>

theorem unreadable_variables_file_is_absorbed:
  assumes "readFileSync env (path_resolve env root USER_VARIABLES_PATH) = Inl e"
  shows "read_variables env root = ([LogWarn (message e)], Inr '''')
       \<and> (cheerio_children env '''' = [] \<longrightarrow>
            parse_children (cheerio_children env '''') = []
          \<and> user_variables env root
              = ([LogWarn (message e)], Inr [(''baseUrl'', ''{{baseUrl}}'')]))"
  using assms
  by (simp add: read_variables_def user_variables_def catch_c_def bind_c_def emit_def pure_c_def
      parse_children_def variables_of_children_def inject_baseUrl_def js_assign_def)

theorem unreadable_variables_file_is_absorbed_witness:
  "readFileSync outside_env (path_resolve outside_env ''/site'' USER_VARIABLES_PATH) = Inl enoent
   \<and> cheerio_children outside_env '''' = []
   \<and> read_variables outside_env ''/site''
       = ([LogWarn ''ENOENT: no such file or directory''], Inr '''')
   \<and> user_variables outside_env ''/site''
       = ([LogWarn ''ENOENT: no such file or directory''], Inr [(''baseUrl'', ''{{baseUrl}}'')])"
proof -
  have a: "readFileSync outside_env (path_resolve outside_env ''/site'' USER_VARIABLES_PATH)
      = Inl enoent"
    by (simp add: outside_env_def sample_env_def)
  have b: "cheerio_children outside_env '''' = []"
    by (simp add: outside_env_def sample_env_def sample_variables_def)
  from unreadable_variables_file_is_absorbed [OF a] a b show ?thesis
    by (simp add: enoent_def)
qed

text \<open>
  C10. An element without an id attribute is stored too, under the key
  \<open>undefined\<close>: the loop body stores its markup there, and a file with such an
  element always ends with an \<open>undefined\<close> entry, holding the markup of the
  last element stored under that key, and kept by the placeholder injection.
\<close>

theorem missing_id_stored_as_undefined:
  assumes "el \<in> set els" and "attr_id el = None"
  shows "map_of (each_child obj el) ''undefined'' = Some (html el)
       \<and> map_of (parse_children els) ''undefined''
           = map_option html (List.find (\<lambda>e. key_of e = ''undefined'') (rev els))
       \<and> map_of (parse_children els) ''undefined'' \<noteq> None
       \<and> map_of (variables_of_children els) ''undefined''
           = map_of (parse_children els) ''undefined''"
proof -
  have k: "key_of el = ''undefined''"
    using assms(2) by (simp add: key_of_def to_property_key_def)
  have 1: "map_of (each_child obj el) ''undefined'' = Some (html el)"
    using k by (simp add: map_of_each_child)
  have 2: "map_of (parse_children els) ''undefined''
           = map_option html (List.find (\<lambda>e. key_of e = ''undefined'') (rev els))"
    by (simp add: parse_children_def map_of_foldl_each_child split: option.splits)
  have "List.find (\<lambda>e. key_of e = ''undefined'') (rev els) \<noteq> None"
    using assms(1) k by (auto simp: find_None_iff)
  with 2 have 3: "map_of (parse_children els) ''undefined'' \<noteq> None" by simp
  have 4: "map_of (variables_of_children els) ''undefined''
      = map_of (parse_children els) ''undefined''"
    by (simp add: variables_of_children_def inject_baseUrl_def map_of_js_assign)
  from 1 2 3 4 show ?thesis by simp
qed

theorem missing_id_stored_as_undefined_witness:
  "declared_ids [\<lparr>attr_id = Some ''a'', html = ''1''\<rparr>, \<lparr>attr_id = None, html = ''<b>x</b>''\<rparr>]
     = {''a''}
   \<and> parse_children [\<lparr>attr_id = Some ''a'', html = ''1''\<rparr>, \<lparr>attr_id = None, html = ''<b>x</b>''\<rparr>]
     = [(''a'', ''1''), (''undefined'', ''<b>x</b>'')]"
  using missing_id_stored_as_undefined
    [of "\<lparr>attr_id = None, html = ''<b>x</b>''\<rparr>"
        "[\<lparr>attr_id = Some ''a'', html = ''1''\<rparr>, \<lparr>attr_id = None, html = ''<b>x</b>''\<rparr>]" "[]"]
  by (simp add: declared_ids_def List.map_filter_def parse_children_def each_child_def
      js_assign_def to_property_key_def)

section \<open>Properties of the commands\<close>

subsection \<open>Traces\<close>

lemma calls_of_simps:
  "calls_of [] = []"
  "calls_of (Called c # t) = c # calls_of t"
  "calls_of (Fulfilled c # t) = calls_of t"
  "calls_of (Rejected c # t) = calls_of t"
  "calls_of (LogLogo # t) = calls_of t"
  "calls_of (LogInfo s # t) = calls_of t"
  "calls_of (LogWarn s # t) = calls_of t"
  "calls_of (LogError s # t) = calls_of t"
  "calls_of (LogLog s # t) = calls_of t"
  "calls_of (OutputFile p d # t) = calls_of t"
  "calls_of (IsSourceFile p # t) = calls_of t"
  by (simp_all add: calls_of_def List.map_filter_def)

lemma calls_of_append: "calls_of (s @ t) = calls_of s @ calls_of t"
  by (simp add: calls_of_def List.map_filter_def)

lemma fst_bind_c:
  "fst (bind_c m f) = (case snd m of Inl e \<Rightarrow> fst m | Inr v \<Rightarrow> fst m @ fst (f v))"
  by (simp add: bind_c_def split: prod.splits sum.splits)

lemma snd_bind_c:
  "snd (bind_c m f) = (case snd m of Inl e \<Rightarrow> Inl e | Inr v \<Rightarrow> snd (f v))"
  by (simp add: bind_c_def split: prod.splits sum.splits)

lemma fst_catch_c:
  "fst (catch_c m h) = (case snd m of Inl e \<Rightarrow> fst m @ fst (h e) | Inr v \<Rightarrow> fst m)"
  by (simp add: catch_c_def split: prod.splits sum.splits)

lemma snd_catch_c:
  "snd (catch_c m h) = (case snd m of Inl e \<Rightarrow> snd (h e) | Inr v \<Rightarrow> Inr v)"
  by (simp add: catch_c_def split: prod.splits sum.splits)

lemmas proj_defs =
  fst_bind_c snd_bind_c fst_catch_c snd_catch_c then_p_def catch_p_def resolve_p_def
  pure_c_def throw_c_def emit_def detach_def promise_of_def

lemma calls_of_write_or_log: "calls_of (fst (write_or_log env output result)) = []"
  by (simp add: write_or_log_def proj_defs calls_of_simps Let_def split: sum.splits)

lemma calls_of_read_variables: "calls_of (fst (read_variables env root)) = []"
  by (simp add: read_variables_def proj_defs calls_of_simps split: sum.splits)

subsection \<open>The one-shot commands\<close>

text \<open>
  C5, as stated, fails for render: in the sample project its only collaborator
  call is \<open>renderFile\<close>, with a config that has no
  \<open>userDefinedVariablesMap\<close>; no variables file is read on the way.
\<close>

theorem render_config_has_no_variables_counterexample:
  "calls_of (fst (render_action sample_env ''page.md'' None))
     = [RenderFile ''/site/docs/page.md''
          \<lparr> rootPath = ''/site'', baseUrlMap = [(''/site'', True)],
            userDefinedVariablesMap = None \<rparr>]"
  by (simp add: render_action_def render_config_def dirname_of_def write_or_log_def comp_defs
      calls_of_simps sample_env_def SITE_CONFIG_NAME_def js_assign_def truthy_def Let_def)

text \<open>
  C5, amended. When a site.json is found at \<open>p\<close>, the only collaborator call
  of the include action is \<open>includeFile\<close> on the resolved file, with a config
  holding \<open>rootPath\<close> (the directory of \<open>p\<close>), \<open>baseUrlMap\<close> and the
  \<open>userDefinedVariablesMap\<close> that maps the root to the variables read and
  prepared for that root; the only collaborator call of the render action is
  \<open>renderFile\<close>, with a config holding \<open>rootPath\<close> and \<open>baseUrlMap\<close> alone,
  and the render action loads no variables: what it does and how it ends is
  the same whatever reading any file and parsing any content would answer.
\<close>

theorem one_shot_engine_calls:
  assumes "findUp_sync env SITE_CONFIG_NAME = Some p"
  shows "calls_of (fst (include_action env file output))
           = [IncludeFile (path_resolve env (cwd env) file)
                \<lparr> rootPath = path_dirname env p,
                  baseUrlMap = js_assign (path_dirname env p) True [],
                  userDefinedVariablesMap =
                    Some (js_assign (path_dirname env p)
                            (variables_of_children (cheerio_children env
                               (case readFileSync env
                                       (path_resolve env (path_dirname env p) USER_VARIABLES_PATH) of
                                  Inl e \<Rightarrow> '''' | Inr c \<Rightarrow> c))) []) \<rparr>]
       \<and> calls_of (fst (render_action env file output))
           = [RenderFile (path_resolve env (cwd env) file)
                \<lparr> rootPath = path_dirname env p,
                  baseUrlMap = js_assign (path_dirname env p) True [],
                  userDefinedVariablesMap = None \<rparr>]
       \<and> render_action (env \<lparr> readFileSync := r, cheerio_children := c \<rparr>) file output
           = render_action env file output"
proof -
  have u: "user_variables env (path_dirname env p)
     = (fst (read_variables env (path_dirname env p)),
        Inr (variables_of_children (cheerio_children env
               (case readFileSync env (path_resolve env (path_dirname env p) USER_VARIABLES_PATH) of
                  Inl e \<Rightarrow> '''' | Inr c \<Rightarrow> c))))"
    by (simp add: user_variables_def read_variables_def comp_defs split: sum.splits)
  have i: "calls_of (fst (include_action env file output)) = [IncludeFile (path_resolve env (cwd env) file)
                \<lparr> rootPath = path_dirname env p,
                  baseUrlMap = js_assign (path_dirname env p) True [],
                  userDefinedVariablesMap =
                    Some (js_assign (path_dirname env p)
                            (variables_of_children (cheerio_children env
                               (case readFileSync env
                                       (path_resolve env (path_dirname env p) USER_VARIABLES_PATH) of
                                  Inl e \<Rightarrow> '''' | Inr c \<Rightarrow> c))) []) \<rparr>]"
    using assms
    by (simp add: include_action_def include_config_def dirname_of_def u proj_defs
        calls_of_simps calls_of_append calls_of_write_or_log calls_of_read_variables Let_def
        split: sum.splits)
  have r: "calls_of (fst (render_action env file output))
           = [RenderFile (path_resolve env (cwd env) file)
                \<lparr> rootPath = path_dirname env p,
                  baseUrlMap = js_assign (path_dirname env p) True [],
                  userDefinedVariablesMap = None \<rparr>]"
    using assms
    by (simp add: render_action_def render_config_def dirname_of_def proj_defs
        calls_of_simps calls_of_append calls_of_write_or_log Let_def split: sum.splits)
  have n: "render_action (env \<lparr> readFileSync := r, cheerio_children := c \<rparr>) file output
           = render_action env file output"
    by (cases "findUp_sync env SITE_CONFIG_NAME")
       (simp_all add: render_action_def write_or_log_def dirname_of_def Let_def cong: if_cong)
  from i r n show ?thesis by simp
qed

theorem one_shot_engine_calls_witness:
  "findUp_sync sample_env SITE_CONFIG_NAME = Some ''/site/site.json''
   \<and> calls_of (fst (include_action sample_env ''page.md'' None))
       = [IncludeFile ''/site/docs/page.md''
            \<lparr> rootPath = ''/site'', baseUrlMap = [(''/site'', True)],
              userDefinedVariablesMap =
                Some [(''/site'', [(''year'', ''2018''), (''baseUrl'', ''{{baseUrl}}'')])] \<rparr>]"
proof -
  have a: "findUp_sync sample_env SITE_CONFIG_NAME = Some ''/site/site.json''"
    by (simp add: sample_env_def SITE_CONFIG_NAME_def)
  from one_shot_engine_calls [OF a, of "''page.md''" None] a show ?thesis
    by (simp add: sample_env_def USER_VARIABLES_PATH_def sample_variables_def sample_children_def
        variables_of_children_def inject_baseUrl_def parse_children_def each_child_def
        js_assign_def to_property_key_def)
qed

text \<open>
  C6. When no ancestor directory holds a site.json, the include action fails
  at once, with the TypeError that \<open>path.dirname\<close> throws on the missing
  path, before any effect: nothing is read, the engine is not called, no file
  is written, no root is assumed.
\<close>

theorem include_outside_project_fails:
  assumes "findUp_sync env SITE_CONFIG_NAME = None"
  shows "include_action env file output
           = ([], Inl (JsError TypeError ''Path must be a string. Received null''))
       \<and> \<not> list_ex is_output_file (fst (include_action env file output))
       \<and> calls_of (fst (include_action env file output)) = []"
  using assms by (simp add: include_action_def dirname_of_def comp_defs calls_of_simps)

theorem include_outside_project_fails_witness:
  "findUp_sync outside_env SITE_CONFIG_NAME = None
   \<and> include_action outside_env ''page.md'' (Some ''out.html'')
       = ([], Inl (JsError TypeError ''Path must be a string. Received null''))"
proof -
  have a: "findUp_sync outside_env SITE_CONFIG_NAME = None"
    by (simp add: outside_env_def sample_env_def)
  from include_outside_project_fails [OF a] a show ?thesis by simp
qed

subsection \<open>The watch handlers\<close>

text \<open>What a handler does, whatever the event, the classification and the builder's answer.\<close>

lemma handler_trace:
  "handler_of env kind filePath =
     ([LogInfo ((case kind of Add \<Rightarrow> ''Reload for file add: ''
                 | Change \<Rightarrow> ''Reload for file change: ''
                 | Unlink \<Rightarrow> ''Reload for file deletion: '') @ filePath),
       IsSourceFile filePath,
       Called (spec_transition kind (isSourceFile env filePath) filePath)]
      @ (case settles env (spec_transition kind (isSourceFile env filePath) filePath) of
           Inl e \<Rightarrow> [Rejected (spec_transition kind (isSourceFile env filePath) filePath),
                      LogError (message e)]
         | Inr u \<Rightarrow> [Fulfilled (spec_transition kind (isSourceFile env filePath) filePath)]),
      Inr ())"
  by (cases kind; cases "isSourceFile env filePath")
     (simp_all add: addHandler_def changeHandler_def removeHandler_def comp_defs split: sum.splits)

text \<open>
  C2. For every event that reaches a handler, the one collaborator call made
  is the action of the transition table for the event's kind and the path's
  classification, on that path: add or change of a source file and unlink of a
  source file rebuild the affected source files, add or change of an asset
  copies it, unlink of an asset removes it. An event on a path that is not
  ignored reaches the handler of its kind.
\<close>

theorem handlers_follow_transition_table:
  "calls_of (fst (handler_of env kind filePath))
     = [spec_transition kind (isSourceFile env filePath) filePath]
   \<and> (\<not> anymatch ignored filePath \<longrightarrow>
        watcher_emit env ignored (kind, filePath) = handler_of env kind filePath)"
  by (simp add: handler_trace calls_of_simps watcher_emit_def split: sum.splits)

theorem handlers_follow_transition_table_witness:
  "calls_of (fst (handler_of sample_env Add ''/site/a.md''))
     = [RebuildAffectedSourceFiles ''/site/a.md'']
   \<and> calls_of (fst (handler_of sample_env Change ''/site/a.png'')) = [BuildAsset ''/site/a.png'']
   \<and> calls_of (fst (handler_of sample_env Unlink ''/site/a.md''))
     = [RebuildAffectedSourceFiles ''/site/a.md'']
   \<and> calls_of (fst (handler_of sample_env Unlink ''/site/a.png'')) = [RemoveAsset ''/site/a.png'']
   \<and> calls_of (fst (watcher_emit sample_env (serve_ignored ''/site/_site'') (Unlink, ''/site/a.png'')))
     = [RemoveAsset ''/site/a.png'']"
  using handlers_follow_transition_table [of sample_env Add "''/site/a.md''" "[]"]
        handlers_follow_transition_table [of sample_env Change "''/site/a.png''" "[]"]
        handlers_follow_transition_table [of sample_env Unlink "''/site/a.md''" "[]"]
        handlers_follow_transition_table
          [of sample_env Unlink "''/site/a.png''" "serve_ignored ''/site/_site''"]
  by (simp add: sample_env_def endsWith_def suffix_to_prefix anymatch_def serve_ignored_def
      dot_regexp_test_def is_sep_def)


lemma snd_watcher_emit: "snd (watcher_emit env ignored ev) = Inr ()"
  by (cases ev) (simp add: watcher_emit_def handler_trace pure_c_def)

lemma calls_of_watcher_emit:
  "calls_of (fst (watcher_emit env ignored ev)) =
     (if anymatch ignored (snd ev) then []
      else [spec_transition (fst ev) (isSourceFile env (snd ev)) (snd ev)])"
  by (cases ev) (simp add: watcher_emit_def handler_trace pure_c_def calls_of_simps split: sum.splits)

lemma run_events_all:
  "snd (run_events env ignored evs) = Inr ()
   \<and> calls_of (fst (run_events env ignored evs))
       = map (\<lambda>ev. spec_transition (fst ev) (isSourceFile env (snd ev)) (snd ev))
           (filter (\<lambda>ev. \<not> anymatch ignored (snd ev)) evs)"
proof (induction evs)
  case Nil
  show ?case by (simp add: pure_c_def calls_of_simps)
next
  case (Cons ev evs)
  then show ?case
    by (simp add: fst_bind_c snd_bind_c snd_watcher_emit calls_of_append calls_of_watcher_emit)
qed

text \<open>
  C8. No handler throws to the watcher, whatever the builder answers; when the
  builder action fails, the handler ends with the rejection and one error log
  of its message. A stream of events is therefore processed to its end, and
  every event on a path that is not ignored has its own action called,
  whatever happened to the actions of the other events.
\<close>

theorem builder_failure_stays_in_its_event:
  "snd (handler_of env kind filePath) = Inr ()
   \<and> (settles env (spec_transition kind (isSourceFile env filePath) filePath) = Inl e \<longrightarrow>
        drop 3 (fst (handler_of env kind filePath))
          = [Rejected (spec_transition kind (isSourceFile env filePath) filePath),
             LogError (message e)])
   \<and> snd (run_events env ignored evs) = Inr ()
   \<and> calls_of (fst (run_events env ignored evs))
       = map (\<lambda>ev. spec_transition (fst ev) (isSourceFile env (snd ev)) (snd ev))
           (filter (\<lambda>ev. \<not> anymatch ignored (snd ev)) evs)"
  by (simp add: handler_trace run_events_all)


theorem builder_failure_stays_in_its_event_witness:
  "settles failing_env (spec_transition Add (isSourceFile failing_env ''/site/a.md'') ''/site/a.md'')
     = Inl (JsError GenericError ''rebuild failed'')
   \<and> run_events failing_env (serve_ignored ''/site/_site'')
        [(Add, ''/site/a.md''), (Change, ''/site/a.png'')]
     = ([LogInfo ''Reload for file add: /site/a.md'', IsSourceFile ''/site/a.md'',
         Called (RebuildAffectedSourceFiles ''/site/a.md''),
         Rejected (RebuildAffectedSourceFiles ''/site/a.md''), LogError ''rebuild failed'',
         LogInfo ''Reload for file change: /site/a.png'', IsSourceFile ''/site/a.png'',
         Called (BuildAsset ''/site/a.png''), Rejected (BuildAsset ''/site/a.png''),
         LogError ''copy failed''],
        Inr ())"
  using builder_failure_stays_in_its_event
    [of failing_env Add "''/site/a.md''" "JsError GenericError ''rebuild failed''"
        "serve_ignored ''/site/_site''" "[(Add, ''/site/a.md''), (Change, ''/site/a.png'')]"]
  by (simp add: failing_env_def sample_env_def endsWith_def suffix_to_prefix anymatch_def
      serve_ignored_def dot_regexp_test_def is_sep_def watcher_emit_def addHandler_def
      changeHandler_def comp_defs)

subsection \<open>The serve action\<close>

text \<open>
  C1. The serve action throws nothing and starts by reading the site
  configuration; generation is called only after the configuration was read,
  the watcher is installed only after generation was fulfilled, and the server
  is started only after the watcher was installed and its three handlers were
  bound. When reading the configuration fails, or generation fails, the
  action logs the error and does nothing more: no watcher, no server.
\<close>

theorem serve_steps_are_ordered:
  "snd (serve_action env root options) = Inr ()
   \<and> take 2 (fst (serve_action env root options)) = [LogLogo, Called ReadSiteConfig]
   \<and> precedes (\<lambda>x. x = Fulfilled ReadSiteConfig) (\<lambda>x. x = Called Generate)
        (fst (serve_action env root options))
   \<and> precedes (\<lambda>x. x = Fulfilled Generate) is_watch (fst (serve_action env root options))
   \<and> precedes is_watch is_server_start (fst (serve_action env root options))
   \<and> precedes (\<lambda>x. x = On ''unlink'') is_server_start (fst (serve_action env root options))
   \<and> (readSiteConfig env = Inl e \<longrightarrow>
        fst (serve_action env root options)
          = [LogLogo, Called ReadSiteConfig, Rejected ReadSiteConfig, LogError (message e)])
   \<and> (readSiteConfig env = Inr cfg \<and> generate env = Inl e \<longrightarrow>
        fst (serve_action env root options)
          = [LogLogo, Called ReadSiteConfig, Fulfilled ReadSiteConfig,
             Called Generate, Rejected Generate, LogError (message e)])
   \<and> (isl (readSiteConfig env) \<or> isl (generate env) \<longrightarrow>
        \<not> list_ex is_watch (fst (serve_action env root options))
        \<and> \<not> list_ex is_server_start (fst (serve_action env root options)))"
  by (cases "readSiteConfig env"; cases "generate env"; cases "chokidar_watch env";
      cases "liveServer_start env"; cases "server_address env")
     (simp_all add: serve_action_def install_watcher_def start_server_def comp_defs Let_def
        split: prod.splits)

theorem serve_steps_are_ordered_witness:
  "generate failing_env = Inl (JsError GenericError ''generation failed'')
   \<and> serve_action failing_env None \<lparr>opt_port = None, opt_open = True\<rparr>
     = ([LogLogo, Called ReadSiteConfig, Fulfilled ReadSiteConfig,
         Called Generate, Rejected Generate, LogError ''generation failed''], Inr ())
   \<and> precedes (\<lambda>x. x = Fulfilled Generate) is_watch
        (fst (serve_action sample_env None \<lparr>opt_port = None, opt_open = True\<rparr>))
   \<and> list_ex is_server_start
        (fst (serve_action sample_env None \<lparr>opt_port = None, opt_open = True\<rparr>))"
proof -
  have a: "generate failing_env = Inl (JsError GenericError ''generation failed'')"
    by (simp add: failing_env_def sample_env_def)
  have b: "readSiteConfig failing_env = Inr \<lparr>baseUrl = Some ''/docs''\<rparr>"
    by (simp add: failing_env_def sample_env_def)
  have c: "list_ex is_server_start
        (fst (serve_action sample_env None \<lparr>opt_port = None, opt_open = True\<rparr>))"
    by (simp add: serve_action_def install_watcher_def start_server_def comp_defs Let_def
        sample_env_def)
  from serve_steps_are_ordered
         [of failing_env None "\<lparr>opt_port = None, opt_open = True\<rparr>"
             "JsError GenericError ''generation failed''" "\<lparr>baseUrl = Some ''/docs''\<rparr>"]
       serve_steps_are_ordered
         [of sample_env None "\<lparr>opt_port = None, opt_open = True\<rparr>"]
       a b c
  show ?thesis by (simp add: prod_eq_iff)
qed

subsection \<open>The ignore list\<close>

lemma scan_after:
  "xs \<noteq> [] \<Longrightarrow> regexp_scan (is_sep (last xs)) ys \<Longrightarrow> regexp_scan b (xs @ ys)"
proof (induction xs arbitrary: b)
  case Nil
  then show ?case by simp
next
  case (Cons x xs)
  show ?case
  proof (cases "xs = []")
    case True
    with Cons.prems show ?thesis by simp
  next
    case False
    with Cons.prems have "regexp_scan (is_sep (last xs)) ys" by simp
    from Cons.IH[OF False this] show ?thesis by simp
  qed
qed

lemma path_split:
  "p = rev (dropWhile (\<lambda>c. c \<noteq> CHR ''/'') (rev p)) @ basename p"
proof -
  have "rev (takeWhile (\<lambda>c. c \<noteq> CHR ''/'') (rev p) @ dropWhile (\<lambda>c. c \<noteq> CHR ''/'') (rev p)) = p"
    by (simp only: takeWhile_dropWhile_id rev_rev_ident)
  then show ?thesis
    by (simp only: rev_append basename_def)
qed

lemma dot_basename_matches:
  assumes "basename p = CHR ''.'' # rest" and "rest \<noteq> []" and "\<not> line_terminator_at rest"
  shows "dot_regexp_test p"
proof -
  let ?d = "dropWhile (\<lambda>c. c \<noteq> CHR ''/'') (rev p)"
  obtain d cs where rest: "rest = d # cs"
    using assms(2) by (cases rest) auto
  have s: "regexp_scan True (basename p)"
    using assms(1,3) rest by simp
  show ?thesis
  proof (cases "?d = []")
    case True
    with path_split[of p] have "p = basename p" by simp
    with s show ?thesis by (simp add: dot_regexp_test_def)
  next
    case False
    then have "hd ?d = CHR ''/''"
      using hd_dropWhile[of "\<lambda>c. c \<noteq> CHR ''/''" "rev p"] by simp
    with False have "last (rev ?d) = CHR ''/''"
      by (simp add: last_rev)
    then have "is_sep (last (rev ?d))" by (simp add: is_sep_def)
    with s have "regexp_scan (is_sep (last (rev ?d))) (basename p)" by simp
    from scan_after[OF _ this, of True] False have "regexp_scan True (rev ?d @ basename p)"
      by simp
    with path_split[of p] show ?thesis by (simp add: dot_regexp_test_def)
  qed
qed

text \<open>The same miss with the line separator U+2028 after the dot.\<close>

lemma dot_line_separator_not_matched:
  "\<not> dot_regexp_test (''/site/.'' @ [CHR 0xE2, CHR 0x80, CHR 0xA8] @ ''x'')"
  by (simp add: dot_regexp_test_def is_sep_def)

text \<open>
  C9, the code at a failing input. The serve action watches /site with the
  output folder /site/_site; a file named dot, line feed, x is added. Its
  basename starts with a dot, yet no entry of the ignore list of lines 208 to
  212 holds for its path: the regular expression does not match (its final
  \<open>.\<close> refuses the line feed), neither \<open>endsWith\<close> function answers true, and the
  path is neither the output folder nor below it. The handler bound to add,
  run on the path, calls \<open>buildAsset\<close>.
\<close>

theorem dot_linefeed_file_is_not_ignored:
  "take 1 (basename (''/site/.'' @ [CHR 0x0A] @ ''x'')) = ''.''
   \<and> \<not> dot_regexp_test (''/site/.'' @ [CHR 0x0A] @ ''x'')
   \<and> \<not> endsWith (''/site/.'' @ [CHR 0x0A] @ ''x'') ''___jb_tmp___''
   \<and> \<not> endsWith (''/site/.'' @ [CHR 0x0A] @ ''x'') ''___jb_old___''
   \<and> ''/site/.'' @ [CHR 0x0A] @ ''x'' \<noteq> ''/site/_site''
   \<and> \<not> under_dir ''/site/_site'' (''/site/.'' @ [CHR 0x0A] @ ''x'')
   \<and> calls_of (fst (addHandler sample_env (''/site/.'' @ [CHR 0x0A] @ ''x'')))
       = [BuildAsset (''/site/.'' @ [CHR 0x0A] @ ''x'')]"
proof -
  have a: "\<not> dot_regexp_test (''/site/.'' @ [CHR 0x0A] @ ''x'')"
    by (simp add: dot_regexp_test_def is_sep_def)
  have b: "\<not> isSourceFile sample_env (''/site/.'' @ [CHR 0x0A] @ ''x'')"
    by (simp add: sample_env_def endsWith_def suffix_to_prefix)
  have c: "take 1 (basename (''/site/.'' @ [CHR 0x0A] @ ''x'')) = ''.''"
    by (simp add: basename_def)
  have d: "\<not> endsWith (''/site/.'' @ [CHR 0x0A] @ ''x'') ''___jb_tmp___''
         \<and> \<not> endsWith (''/site/.'' @ [CHR 0x0A] @ ''x'') ''___jb_old___''"
    by (simp add: endsWith_def suffix_to_prefix)
  have e: "\<not> under_dir ''/site/_site'' (''/site/.'' @ [CHR 0x0A] @ ''x'')"
    by (simp add: under_dir_def)
  have f: "calls_of (fst (addHandler sample_env (''/site/.'' @ [CHR 0x0A] @ ''x'')))
       = [BuildAsset (''/site/.'' @ [CHR 0x0A] @ ''x'')]"
    using b handler_trace[of sample_env Add "''/site/.'' @ [CHR 0x0A] @ ''x''"]
    by (simp add: calls_of_simps split: sum.splits)
  from a c d e f show ?thesis by simp
qed

end
